theory Spec2Isabelle
  imports Main
begin

section \<open>The F1 bitstream builder of deploy/buildtools/bitbuilder.py\<close>

text \<open>
  The module drives external tools (Fabric's \<open>local\<close>, \<open>run\<close> and \<open>rsync_project\<close>, the
  AWS command line, the notification helper) and does almost nothing else.  The embedding
  therefore records every call that leaves the module as an event, in program order, and
  takes everything the outside world answers from a \<open>world\<close> record.  A function of the
  source becomes a function from the world and the events so far to the new event list and
  the result or the exception raised.
\<close>

subsection \<open>Data\<close>

text \<open>What a Fabric operation returns: the captured output, its \<open>.stderr\<close>, its \<open>.return_code\<close>.\<close>

record cmd_result =
  stdout :: string
  stderr :: string
  return_code :: int

datatype level = DEBUG | INFO

text \<open>
  The calls that leave the module.  \<open>Local cwd cmd\<close> is Fabric's \<open>local(cmd)\<close> on the manager
  inside \<open>lcd(cwd)\<close> (\<open>None\<close> outside every \<open>lcd\<close>); \<open>Run cmd\<close> is \<open>run(cmd)\<close> on the build
  host; \<open>Rsync_project local_dir remote_dir upload\<close> is the bulk copy; \<open>Log\<close> is a
  \<open>rootLogger\<close> record; \<open>Write_file path content\<close> is the \<open>open(path, "w")\<close> and \<open>write\<close>.
  \<open>Release_build_farm_host\<close> is
  \<open>build_config.build_farm_host_dispatcher.release_build_farm_host()\<close> and
  \<open>Release_build_host\<close> is \<open>build_config.build_host_dispatcher.release_build_host()\<close>:
  the source spells two different attributes and two different methods.
\<close>

datatype event =
    Local "string option" string
  | Run string
  | Rsync_project string string bool
  | Log level string
  | Sleep nat
  | Send_firesim_notification string string
  | Copy_afi_to_all_regions string
  | Write_file string string
  | Release_build_farm_host
  | Release_build_host

datatype error = AttributeError | AssertionError | IndexError | JSONError

text \<open>
  The outside world.  An answer may depend on when the question is asked, so each
  operation takes the number of events so far as its clock: that is what lets two
  successive \<open>describe-fpga-images\<close> queries answer differently.  Following the executor
  contract of the specification (a command yields an exit status and its captured output)
  an operation always returns a \<open>cmd_result\<close>.  The \<open>StreamLogger\<close> contexts, which pass
  what the tools print on to the log, are left out: \<open>Log\<close> events are the records this
  module writes itself.

  \<open>host_string\<close> is \<open>str(env.host_string)\<close>, \<open>random_suffix\<close> the ten characters drawn from
  \<open>random.SystemRandom\<close>.  \<open>firesim_tags_to_description\<close> is imported from
  \<open>awstools.afitools\<close> and is a parameter here.  \<open>json_image_ids\<close> stands for
  \<open>json.loads\<close> followed by the subscripts \<open>["FpgaImageGlobalId"]\<close> and \<open>["FpgaImageId"]\<close>,
  giving \<open>(agfi, afi)\<close>; \<open>json_state_code\<close> for \<open>json.loads\<close> followed by
  \<open>["FpgaImages"][0]["State"]["Code"]\<close>; \<open>None\<close> is any exception of the decoding or of
  a subscript.  The two identifiers and the state code are strings, as the service
  returns them.
\<close>

record world =
  local :: "nat \<Rightarrow> string option \<Rightarrow> string \<Rightarrow> cmd_result"
  run :: "nat \<Rightarrow> string \<Rightarrow> cmd_result"
  rsync_project :: "nat \<Rightarrow> string \<Rightarrow> string \<Rightarrow> bool \<Rightarrow> cmd_result"
  host_string :: string
  random_suffix :: string
  firesim_tags_to_description :: "string \<Rightarrow> string \<Rightarrow> string \<Rightarrow> string"
  json_image_ids :: "string \<Rightarrow> (string \<times> string) option"
  json_state_code :: "string \<Rightarrow> string option"

text \<open>
  The build config.  Its class lives in \<open>buildtools.buildconfig\<close>; the record holds what
  this module reads from it: the values of \<open>get_chisel_triplet()\<close> and
  \<open>get_build_dir_name()\<close>, the attributes \<open>s3_bucketname\<close>, \<open>name\<close>, \<open>deploytriplet\<close> and
  \<open>post_build_hook\<close> (\<open>None\<close> is Python's \<open>None\<close>), \<open>build_farm_host_dispatcher.is_local\<close>,
  and whether the object has an attribute \<open>build_host_dispatcher\<close> with a method
  \<open>release_build_host\<close> at all.
\<close>

record BuildConfig =
  chisel_triplet :: string
  build_dir_name :: string
  s3_bucketname :: string
  name :: string
  deploytriplet :: "string option"
  post_build_hook :: "string option"
  is_local :: bool
  has_build_host_dispatcher :: bool

text \<open>A bit builder has the one attribute that \<open>BitBuilder.__init__\<close> sets.\<close>

record BitBuilder =
  build_config :: BuildConfig

text \<open>
  The two kinds of object that reach the parameter \<open>build_config\<close> of \<open>aws_create_afi\<close>.
  The function is defined in the body of class \<open>F1BitBuilder\<close> with that single parameter,
  so \<open>F1BitBuilder.aws_create_afi(cfg)\<close> passes a build config, and the bound call
  \<open>self.aws_create_afi()\<close> of \<open>build_bitstream\<close> passes the bit builder itself.
\<close>

datatype pyobject = Is_BuildConfig BuildConfig | Is_F1BitBuilder BitBuilder

subsection \<open>Python primitives\<close>

text \<open>Truth value of an attribute that is \<open>None\<close> or a string.\<close>

fun truthy :: "string option \<Rightarrow> bool" where
  "truthy None = False"
| "truthy (Some s) = (s \<noteq> [])"

text \<open>Truth value of what \<open>aws_create_afi\<close> returns, \<open>True\<close> or \<open>None\<close>.\<close>

fun truthy_result :: "bool option \<Rightarrow> bool" where
  "truthy_result None = False"
| "truthy_result (Some b) = b"

text \<open>\<open>str.isspace\<close> on the ASCII range.\<close>

definition isspace :: "char \<Rightarrow> bool" where
  "isspace c = (c \<in> {CHR '' '', CHR 0x09, CHR 0x0A, CHR 0x0B, CHR 0x0C, CHR 0x0D,
                      CHR 0x1C, CHR 0x1D, CHR 0x1E, CHR 0x1F})"

text \<open>\<open>s.split()\<close>: the maximal runs of non-whitespace characters, \<open>cur\<close> being the run read so far.\<close>

fun split_from :: "string \<Rightarrow> string \<Rightarrow> string list" where
  "split_from cur [] = (if cur = [] then [] else [cur])"
| "split_from cur (c # cs) =
     (if isspace c then (if cur = [] then split_from [] cs else cur # split_from [] cs)
      else split_from (cur @ [c]) cs)"

definition str_split :: "string \<Rightarrow> string list" where
  "str_split s = split_from [] s"

text \<open>\<open>xs[-1]\<close>.\<close>

definition last_item :: "'a list \<Rightarrow> error + 'a" where
  "last_item xs = (if xs = [] then Inl IndexError else Inr (last xs))"

text \<open>\<open>os.path.join(a, b)\<close> with two arguments (POSIX).\<close>

definition os_path_join :: "string \<Rightarrow> string \<Rightarrow> string" where
  "os_path_join a b =
     (if b \<noteq> [] \<and> hd b = CHR ''/'' then b
      else if a = [] \<or> last a = CHR ''/'' then a @ b
      else a @ ''/'' @ b)"

subsection \<open>\<open>get_deploy_dir\<close>\<close>

definition get_deploy_dir :: "world \<Rightarrow> event list \<Rightarrow> event list \<times> string" where
  "get_deploy_dir w tr = (tr @ [Local None ''pwd''], stdout (local w (length tr) None ''pwd''))"

subsection \<open>\<open>F1BitBuilder.aws_create_afi\<close>\<close>

text \<open>
  Lines 238 to 241: the deploy-triplet tag is the build triplet unless the attribute
  \<open>deploytriplet\<close> is truthy.
\<close>

definition tag_deploytriplet :: "BuildConfig \<Rightarrow> string" where
  "tag_deploytriplet bc =
     (case deploytriplet bc of
        None \<Rightarrow> chisel_triplet bc
      | Some d \<Rightarrow> if truthy (Some d) then d else chisel_triplet bc)"

definition git_dirty_cmd :: string where
  "git_dirty_cmd = ''if [[ $(git status --porcelain) ]]; then echo '-dirty'; fi''"

definition git_hash_cmd :: string where
  "git_hash_cmd = ''git rev-parse HEAD''"

text \<open>Lines 251 to 253: the source-commit tag, read at clock \<open>n\<close>.\<close>

definition tag_fsimcommit :: "world \<Rightarrow> nat \<Rightarrow> string" where
  "tag_fsimcommit w n =
     stdout (local w (Suc n) None git_hash_cmd) @ stdout (local w n None git_dirty_cmd)"

definition to_aws_dir :: "string \<Rightarrow> string \<Rightarrow> string" where
  "to_aws_dir local_results_dir tag_buildtriplet =
     local_results_dir @ ''/cl_'' @ tag_buildtriplet @ ''/build/checkpoints/to_aws/''"

definition s3_cp_cmd :: "string \<Rightarrow> string \<Rightarrow> string \<Rightarrow> string" where
  "s3_cp_cmd tarfile s3bucket s3_tarfile =
     ''aws s3 cp '' @ tarfile @ '' s3://'' @ s3bucket @ ''/dcp/'' @ s3_tarfile"

definition create_fpga_image_cmd :: "string \<Rightarrow> string \<Rightarrow> string \<Rightarrow> string \<Rightarrow> string" where
  \<open>create_fpga_image_cmd s3bucket s3_tarfile afiname description =
     ''aws ec2 create-fpga-image --input-storage-location Bucket='' @ s3bucket
     @ '',Key='' @ (''dcp/'' @ s3_tarfile)
     @ '' --logs-storage-location Bucket='' @ s3bucket @ '',Key='' @ ''logs/''
     @ '' --name "'' @ afiname @ ''" --description "'' @ description @ ''" ''\<close>

definition describe_fpga_images_cmd :: "string \<Rightarrow> string" where
  "describe_fpga_images_cmd afi =
     ''aws ec2 describe-fpga-images --fpga-image-id '' @ afi @ '' | tee AGFI_INFO''"

text \<open>
  Lines 229 to 258, for a build config: the directories, the three tags with their
  assertions, and the description.  The result is
  \<open>(local_deploy_dir, local_results_dir, description)\<close>.
\<close>

definition aws_create_afi_tags ::
  "world \<Rightarrow> event list \<Rightarrow> BuildConfig \<Rightarrow> event list \<times> (error + string \<times> string \<times> string)" where
  "aws_create_afi_tags w tr bc =
    (let (tr1, local_deploy_dir) = get_deploy_dir w tr;
         local_results_dir = local_deploy_dir @ ''/results-build/'' @ build_dir_name bc;
         tag_buildtriplet = chisel_triplet bc
     in
     if \<not> length tag_buildtriplet \<le> 255 then (tr1, Inl AssertionError)
     else if \<not> length (tag_deploytriplet bc) \<le> 255 then (tr1, Inl AssertionError)
     else
       let tr3 = tr1 @ [Local None git_dirty_cmd, Local None git_hash_cmd] in
       if \<not> length (tag_fsimcommit w (length tr1)) \<le> 255 then (tr3, Inl AssertionError)
       else
         (tr3, Inr (local_deploy_dir, local_results_dir,
                    firesim_tags_to_description w tag_buildtriplet (tag_deploytriplet bc)
                      (tag_fsimcommit w (length tr1)))))"

text \<open>
  Lines 262 to 281: the listing of the output directory, the choice of the tar file, the
  upload and the image request, all inside \<open>lcd\<close> of the output directory.  The result is
  \<open>(agfi, afi)\<close>.
\<close>

definition aws_create_afi_upload ::
  "world \<Rightarrow> event list \<Rightarrow> BuildConfig \<Rightarrow> string \<Rightarrow> string \<Rightarrow>
     event list \<times> (error + string \<times> string)" where
  "aws_create_afi_upload w tr bc local_results_dir description =
    (let s3bucket = s3_bucketname bc;
         afiname = name bc;
         global_append = ''-'' @ host_string w @ ''-'' @ random_suffix w @ ''.tar'';
         cwd = Some (to_aws_dir local_results_dir (chisel_triplet bc));
         files = local w (length tr) cwd ''ls *.tar'';
         tr1 = tr @ [Local cwd ''ls *.tar'', Log DEBUG (stdout files), Log DEBUG (stderr files)]
     in
     case last_item (str_split (stdout files)) of
       Inl e \<Rightarrow> (tr1, Inl e)
     | Inr tarfile \<Rightarrow>
         let s3_tarfile = tarfile @ global_append;
             localcap = local w (length tr1) cwd (s3_cp_cmd tarfile s3bucket s3_tarfile);
             tr2 = tr1 @ [Local cwd (s3_cp_cmd tarfile s3bucket s3_tarfile),
                          Log DEBUG (stdout localcap), Log DEBUG (stderr localcap)];
             agfi_afi_ids = local w (length tr2) cwd
                              (create_fpga_image_cmd s3bucket s3_tarfile afiname description);
             tr3 = tr2 @ [Local cwd
                            (create_fpga_image_cmd s3bucket s3_tarfile afiname description),
                          Log DEBUG (stdout agfi_afi_ids), Log DEBUG (stderr agfi_afi_ids),
                          Log DEBUG (''create-fpge-image result: '' @ stdout agfi_afi_ids)]
         in
         case json_image_ids w (stdout agfi_afi_ids) of
           None \<Rightarrow> (tr3, Inl JSONError)
         | Some (agfi, afi) \<Rightarrow>
             (tr3 @ [Log INFO (''Resulting AGFI: '' @ agfi),
                     Log INFO (''Resulting AFI: '' @ afi)],
              Inr (agfi, afi)))"

text \<open>
  Lines 287 to 291, one turn of the \<open>while\<close> loop inside \<open>lcd(local_results_dir)\<close>: the
  query, the decoding of the state code, the log record and the \<open>time.sleep(10)\<close>.  The
  file prints these five statements at the indentation of the \<open>while\<close> line; they are
  read as its body, the only statements that assign \<open>checkstate\<close>.
\<close>

definition poll_body ::
  "world \<Rightarrow> string \<Rightarrow> string \<Rightarrow> event list \<Rightarrow> event list \<times> (error + string)" where
  "poll_body w local_results_dir afi tr =
    (let imagestate = local w (length tr) (Some local_results_dir) (describe_fpga_images_cmd afi);
         tr1 = tr @ [Local (Some local_results_dir) (describe_fpga_images_cmd afi)]
     in case json_state_code w (stdout imagestate) of
          None \<Rightarrow> (tr1, Inl JSONError)
        | Some checkstate \<Rightarrow>
            (tr1 @ [Log INFO (''Current state: '' @ checkstate), Sleep 10], Inr checkstate))"

text \<open>
  Line 286, \<open>while checkstate == "pending"\<close>.  Nothing bounds the number of turns, so the
  loop is a partial function: \<open>None\<close> is the run that never leaves it.
\<close>

partial_function (option) poll_while ::
  "world \<Rightarrow> string \<Rightarrow> string \<Rightarrow> string \<Rightarrow> event list \<Rightarrow>
     (event list \<times> (error + string)) option" where
  "poll_while w local_results_dir afi checkstate tr =
    (if checkstate = ''pending'' then
       (case poll_body w local_results_dir afi tr of
          (tr', Inl e) \<Rightarrow> Some (tr', Inl e)
        | (tr', Inr checkstate') \<Rightarrow> poll_while w local_results_dir afi checkstate' tr')
     else Some (tr, Inr checkstate))"

text \<open>Lines 299 to 302, the registry entry.\<close>

definition agfi_entry :: "string \<Rightarrow> string \<Rightarrow> string" where
  "agfi_entry afiname agfi =
     afiname @ '':'' @ [CHR 0x0A]
     @ ''    agfi: '' @ agfi @ [CHR 0x0A]
     @ ''    deploy_triplet_override: null'' @ [CHR 0x0A]
     @ ''    custom_runtime_config: null'' @ [CHR 0x0A]"

definition success_title :: string where
  "success_title = ''FireSim FPGA Build Completed''"

definition success_body :: "string \<Rightarrow> string \<Rightarrow> string" where
  "success_body afiname agfi =
     ''Your AGFI has been created!'' @ [CHR 0x0A] @ ''Add'' @ [CHR 0x0A, CHR 0x0A]
     @ agfi_entry afiname agfi @ [CHR 0x0A]
     @ ''to your config_hwdb.yaml to use this hardware configuration.''"

text \<open>Lines 318 to 322, the optional post-build hook, run at clock \<open>n\<close>.\<close>

definition run_post_build_hook :: "world \<Rightarrow> nat \<Rightarrow> BuildConfig \<Rightarrow> string \<Rightarrow> event list" where
  "run_post_build_hook w n bc local_results_dir =
     (case post_build_hook bc of
        None \<Rightarrow> []
      | Some hook \<Rightarrow>
          if truthy (Some hook) then
            (let localcap = local w n None (hook @ '' '' @ local_results_dir)
             in [Local None (hook @ '' '' @ local_results_dir),
                 Log DEBUG (''[localhost] '' @ stdout localcap),
                 Log DEBUG (''[localhost] '' @ stderr localcap)])
          else [])"

text \<open>
  Lines 294 to 327, what follows the loop.  As for the loop, the \<open>write\<close> of line 316 is
  read as the body of the \<open>with open\<close> of line 315, and lines 319 to 322 as the body of
  the \<open>if\<close> of line 318.
\<close>

definition aws_create_afi_finish ::
  "world \<Rightarrow> event list \<Rightarrow> BuildConfig \<Rightarrow> string \<Rightarrow> string \<Rightarrow> string \<Rightarrow> string \<Rightarrow> string \<Rightarrow>
     event list \<times> (error + bool option)" where
  "aws_create_afi_finish w tr bc local_deploy_dir local_results_dir agfi afi checkstate =
    (if checkstate = ''available'' then
       (let afiname = name bc;
            hwdb_entry_file_location = local_deploy_dir @ ''/built-hwdb-entries/'';
            tr1 = tr @ [Copy_afi_to_all_regions afi,
                        Send_firesim_notification success_title (success_body afiname agfi),
                        Log INFO success_title,
                        Log INFO (success_body afiname agfi),
                        Local None (''mkdir -p '' @ hwdb_entry_file_location),
                        Write_file (hwdb_entry_file_location @ ''/'' @ afiname)
                          (agfi_entry afiname agfi)];
            tr2 = tr1 @ run_post_build_hook w (length tr1) bc local_results_dir
        in (tr2 @ [Log INFO (''Build complete! AFI ready. See ''
                             @ os_path_join hwdb_entry_file_location afiname @ ''.'')],
            Inr (Some True)))
     else (tr, Inr None))"

text \<open>
  The whole function.  Line 230 is the first use of the parameter: a bit builder has no
  \<open>get_build_dir_name\<close>, so the call raises \<open>AttributeError\<close> there.
\<close>

definition aws_create_afi ::
  "world \<Rightarrow> event list \<Rightarrow> pyobject \<Rightarrow> (event list \<times> (error + bool option)) option" where
  "aws_create_afi w tr obj =
    (case obj of
       Is_F1BitBuilder b \<Rightarrow> Some (fst (get_deploy_dir w tr), Inl AttributeError)
     | Is_BuildConfig bc \<Rightarrow>
         (case aws_create_afi_tags w tr bc of
            (tr1, Inl e) \<Rightarrow> Some (tr1, Inl e)
          | (tr1, Inr (local_deploy_dir, local_results_dir, description)) \<Rightarrow>
              (case aws_create_afi_upload w tr1 bc local_results_dir description of
                 (tr2, Inl e) \<Rightarrow> Some (tr2, Inl e)
               | (tr2, Inr (agfi, afi)) \<Rightarrow>
                   (case poll_while w local_results_dir afi ''pending''
                           (tr2 @ [Log INFO ''Waiting for create-fpga-image completion.'']) of
                      None \<Rightarrow> None
                    | Some (tr3, Inl e) \<Rightarrow> Some (tr3, Inl e)
                    | Some (tr3, Inr checkstate) \<Rightarrow>
                        Some (aws_create_afi_finish w tr3 bc local_deploy_dir
                                local_results_dir agfi afi checkstate)))))"

subsection \<open>\<open>F1BitBuilder.build_bitstream\<close>\<close>

text \<open>
  Lines 151 to 163, the failure handler: the notification, two log records, and the
  release spelled \<open>build_host_dispatcher.release_build_host()\<close>.
\<close>

definition failure_title :: string where
  "failure_title = ''FireSim FPGA Build Failed''"

definition failure_body :: "BuildConfig \<Rightarrow> string" where
  "failure_body bc = ''Your FPGA build failed for triplet: '' @ chisel_triplet bc"

definition on_build_failure :: "event list \<Rightarrow> BitBuilder \<Rightarrow> event list \<times> (error + unit)" where
  "on_build_failure tr self =
    (let bc = build_config self;
         tr1 = tr @ [Send_firesim_notification failure_title (failure_body bc),
                     Log INFO failure_title, Log INFO (failure_body bc)]
     in if has_build_host_dispatcher bc then (tr1 @ [Release_build_host], Inr ())
        else (tr1, Inl AttributeError))"

definition build_bitstream_cmd :: "string \<Rightarrow> string" where
  "build_bitstream_cmd cl_dir = cl_dir @ ''/build-bitstream.sh '' @ cl_dir"

text \<open>
  Lines 165 to 208: the copies to and from the build host around the Vivado script.  Class
  \<open>F1BitBuilder\<close> and its base define no \<open>remote_setup\<close>, so line 185 raises
  \<open>AttributeError\<close> when the build farm host is not local.  The result is \<open>vivado_result\<close>.
\<close>

definition run_vivado :: "world \<Rightarrow> BitBuilder \<Rightarrow> event list \<times> (error + int)" where
  "run_vivado w self =
    (let bc = build_config self;
         (tr1, local_deploy_dir) =
           get_deploy_dir w [Log INFO ''Building AWS F1 AGFI from Verilog''];
         fpga_build_postfix = ''hdk/cl/developer_designs/cl_'' @ chisel_triplet bc;
         local_results_dir = local_deploy_dir @ ''/results-build/'' @ build_dir_name bc;
         local_cl_dir = local_deploy_dir @ ''/../platforms/f1/aws-fpga/'' @ fpga_build_postfix;
         tr2 = tr1 @ [Run (''mkdir -p '' @ local_results_dir),
                      Run (''cp '' @ local_cl_dir @ ''/design/FireSim-generated.sv ''
                           @ local_results_dir @ ''/FireSim-generated.sv'')]
     in
     if \<not> is_local bc then (tr2, Inl AttributeError)
     else
       let cl_dir = local_cl_dir;
           script = local_deploy_dir @ ''/../platforms/f1/build-bitstream.sh'';
           rsync_cap = rsync_project w (length tr2) script (cl_dir @ ''/'') True;
           tr3 = tr2 @ [Rsync_project script (cl_dir @ ''/'') True,
                        Log DEBUG (stdout rsync_cap), Log DEBUG (stderr rsync_cap)];
           vivado_result = return_code (run w (length tr3) (build_bitstream_cmd cl_dir));
           tr4 = tr3 @ [Run (build_bitstream_cmd cl_dir)];
           rsync_cap2 = rsync_project w (length tr4) (local_results_dir @ ''/'') cl_dir False;
           tr5 = tr4 @ [Rsync_project (local_results_dir @ ''/'') cl_dir False,
                        Log DEBUG (stdout rsync_cap2), Log DEBUG (stderr rsync_cap2)]
       in (tr5, Inr vivado_result))"

text \<open>
  Lines 140 to 218.  Line 214 is the bound call \<open>self.aws_create_afi()\<close>, which hands the
  bit builder to the parameter \<open>build_config\<close>.
\<close>

definition build_bitstream ::
  "world \<Rightarrow> BitBuilder \<Rightarrow> bool \<Rightarrow> (event list \<times> (error + unit)) option" where
  "build_bitstream w self bypass =
    (if bypass then Some ([Release_build_farm_host], Inr ())
     else
       (case run_vivado w self of
          (tr, Inl e) \<Rightarrow> Some (tr, Inl e)
        | (tr, Inr vivado_result) \<Rightarrow>
            if vivado_result \<noteq> 0 then Some (on_build_failure tr self)
            else
              (case aws_create_afi w tr (Is_F1BitBuilder self) of
                 None \<Rightarrow> None
               | Some (tr', Inl e) \<Rightarrow> Some (tr', Inl e)
               | Some (tr', Inr r) \<Rightarrow>
                   if \<not> truthy_result r then Some (on_build_failure tr' self)
                   else Some (tr' @ [Release_build_farm_host], Inr ()))))"

subsection \<open>Notions used by the properties\<close>

text \<open>The state of the polling loop after at most \<open>k\<close> turns, from a given state.\<close>

fun poll_iter ::
  "world \<Rightarrow> string \<Rightarrow> string \<Rightarrow> nat \<Rightarrow> event list \<times> (error + string) \<Rightarrow>
     event list \<times> (error + string)" where
  "poll_iter w local_results_dir afi 0 st = st"
| "poll_iter w local_results_dir afi (Suc k) st =
     (case st of
        (tr, Inl e) \<Rightarrow> st
      | (tr, Inr checkstate) \<Rightarrow>
          if checkstate = ''pending''
          then poll_iter w local_results_dir afi k (poll_body w local_results_dir afi tr)
          else st)"

text \<open>
  Events of the stages that follow Vivado: an \<open>aws\<close> command on the manager (the upload,
  the image request, a status query), the copy to the other regions, the registry file.
\<close>

fun afi_stage_event :: "event \<Rightarrow> bool" where
  "afi_stage_event (Local cwd cmd) = (take 4 cmd = ''aws '')"
| "afi_stage_event (Copy_afi_to_all_regions afi) = True"
| "afi_stage_event (Write_file path content) = True"
| "afi_stage_event e = False"

fun is_upload :: "event \<Rightarrow> bool" where
  "is_upload (Local cwd cmd) = (take 10 cmd = ''aws s3 cp '')"
| "is_upload e = False"

fun is_write_file :: "event \<Rightarrow> bool" where
  "is_write_file (Write_file path content) = True"
| "is_write_file e = False"

fun is_notification :: "event \<Rightarrow> bool" where
  "is_notification (Send_firesim_notification title body) = True"
| "is_notification e = False"

fun is_release :: "event \<Rightarrow> bool" where
  "is_release Release_build_farm_host = True"
| "is_release Release_build_host = True"
| "is_release e = False"

text \<open>The world \<open>w\<close> with the exit statuses of the commands on the manager replaced.\<close>

definition with_return_codes ::
  "(nat \<Rightarrow> string option \<Rightarrow> string \<Rightarrow> int) \<Rightarrow> world \<Rightarrow> world" where
  "with_return_codes rcs w =
     w\<lparr>local := \<lambda>n cwd cmd. (local w n cwd cmd)\<lparr>return_code := rcs n cwd cmd\<rparr>\<rparr>"

subsection \<open>Example runs\<close>

text \<open>
  A build config with a post-build hook, on a local build farm host, whose class has no
  \<open>build_host_dispatcher\<close>; and a world in which Vivado exits with \<open>rc\<close>, the output
  directory lists \<open>listing\<close>, the image is \<open>pending\<close> as long as the clock is below
  \<open>ready\<close> and \<open>available\<close> from then on, and every command on the manager exits
  with status 1 and, apart from those named, prints nothing.
\<close>

definition example_config :: BuildConfig where
  "example_config =
     \<lparr>chisel_triplet = ''D-T-P'', build_dir_name = ''b1'', s3_bucketname = ''bkt'',
      name = ''rocket'', deploytriplet = None, post_build_hook = Some ''hook.sh'',
      is_local = True, has_build_host_dispatcher = False\<rparr>"

definition example_builder :: BitBuilder where
  "example_builder = \<lparr>build_config = example_config\<rparr>"

definition example_world :: "int \<Rightarrow> string \<Rightarrow> nat \<Rightarrow> world" where
  "example_world rc listing ready =
     \<lparr>local = (\<lambda>n cwd cmd.
         \<lparr>stdout = (if cmd = ''pwd'' then ''/d''
                     else if cmd = ''ls *.tar'' then listing
                     else if cmd = git_hash_cmd then ''c0ffee''
                     else if take 28 cmd = ''aws ec2 describe-fpga-images''
                     then (if n < ready then ''pending'' else ''available'')
                     else []),
          stderr = [], return_code = 1\<rparr>),
      run = (\<lambda>n cmd. \<lparr>stdout = [], stderr = [], return_code = rc\<rparr>),
      rsync_project = (\<lambda>n l r u. \<lparr>stdout = [], stderr = [], return_code = 0\<rparr>),
      host_string = ''None'',
      random_suffix = ''ABCDEFGHI9'',
      firesim_tags_to_description = (\<lambda>b d c. b @ '','' @ d @ '','' @ c),
      json_image_ids = (\<lambda>s. Some (''agfi-123'', ''afi-1'')),
      json_state_code = (\<lambda>s. Some s)\<rparr>"

text \<open>The same world, except that the image ends in the state \<open>failed\<close>.\<close>

definition failing_world :: world where
  "failing_world =
     (example_world 0 ''design.tar'' 20)
       \<lparr>json_state_code := \<lambda>s. Some (if s = ''available'' then ''failed'' else s)\<rparr>"

section \<open>Properties\<close>

subsection \<open>Facts about the stages\<close>

text \<open>The tag stage, with its three assertions in the order of the source.\<close>

lemma tags_eq:
  "aws_create_afi_tags w tr bc =
    (if 255 < length (chisel_triplet bc) \<or> 255 < length (tag_deploytriplet bc)
     then (tr @ [Local None ''pwd''], Inl AssertionError)
     else if 255 < length (tag_fsimcommit w (Suc (length tr)))
     then (tr @ [Local None ''pwd'', Local None git_dirty_cmd, Local None git_hash_cmd],
           Inl AssertionError)
     else (tr @ [Local None ''pwd'', Local None git_dirty_cmd, Local None git_hash_cmd],
           Inr (stdout (local w (length tr) None ''pwd''),
                stdout (local w (length tr) None ''pwd'') @ ''/results-build/'' @ build_dir_name bc,
                firesim_tags_to_description w (chisel_triplet bc) (tag_deploytriplet bc)
                  (tag_fsimcommit w (Suc (length tr))))))"
  by (simp add: aws_create_afi_tags_def get_deploy_dir_def Let_def not_le)

text \<open>
  The loop unfolds by one turn, and it returns exactly what some number of turns reaches
  with a result other than the state \<open>pending\<close>.
\<close>

lemma poll_while_pending:
  "poll_while w rd afi ''pending'' tr =
     (case poll_body w rd afi tr of
        (tr', Inl e) \<Rightarrow> Some (tr', Inl e)
      | (tr', Inr cs) \<Rightarrow> poll_while w rd afi cs tr')"
  by (subst poll_while.simps) simp

lemma poll_while_done:
  "cs \<noteq> ''pending'' \<Longrightarrow> poll_while w rd afi cs tr = Some (tr, Inr cs)"
  by (subst poll_while.simps) simp

lemma poll_iter_Inl: "poll_iter w rd afi k (tr, Inl e) = (tr, Inl e)"
  by (cases k) simp_all

lemma poll_iter_done: "cs \<noteq> ''pending'' \<Longrightarrow> poll_iter w rd afi k (tr, Inr cs) = (tr, Inr cs)"
  by (cases k) simp_all

lemma poll_iter_imp_while:
  "poll_iter w rd afi k (tr, Inr cs) = res \<Longrightarrow> snd res \<noteq> Inr ''pending'' \<Longrightarrow>
     poll_while w rd afi cs tr = Some res"
proof (induction k arbitrary: tr cs)
  case 0
  then show ?case by (auto simp: poll_while_done)
next
  case (Suc k)
  show ?case
  proof (cases "cs = ''pending''")
    case False
    with Suc.prems show ?thesis by (auto simp: poll_while_done)
  next
    case True
    obtain tr' r where b: "poll_body w rd afi tr = (tr', r)" by (cases "poll_body w rd afi tr")
    show ?thesis
    proof (cases r)
      case (Inl e)
      with Suc.prems True b show ?thesis by (auto simp: poll_while_pending poll_iter_Inl)
    next
      case (Inr cs')
      with Suc.prems True b have "poll_iter w rd afi k (tr', Inr cs') = res" by simp
      from Suc.IH[OF this Suc.prems(2)] True b Inr show ?thesis
        by (simp add: poll_while_pending)
    qed
  qed
qed

lemma while_imp_poll_iter:
  "poll_while w rd afi cs tr = Some res \<Longrightarrow>
     \<exists>k. poll_iter w rd afi k (tr, Inr cs) = res \<and> snd res \<noteq> Inr ''pending''"
proof (induction w rd afi cs tr res rule: poll_while.raw_induct[rotated 1, consumes 1])
  case (1 poll_while' w rd afi cs tr res)
  show ?case
  proof (cases "cs = ''pending''")
    case False
    with 1(2) have "res = (tr, Inr cs)" by simp
    with False show ?thesis by (intro exI[of _ 0]) simp
  next
    case True
    obtain tr' r where b: "poll_body w rd afi tr = (tr', r)" by (cases "poll_body w rd afi tr")
    show ?thesis
    proof (cases r)
      case (Inl e)
      with 1(2) True b have "res = (tr', Inl e)" by simp
      with True b Inl show ?thesis by (intro exI[of _ 1]) simp
    next
      case (Inr cs')
      with 1(2) True b have "poll_while' w rd afi cs' tr' = Some res" by simp
      from 1(1)[OF this] obtain k where
        "poll_iter w rd afi k (tr', Inr cs') = res" "snd res \<noteq> Inr ''pending''" by blast
      with True b Inr show ?thesis by (intro exI[of _ "Suc k"]) simp
    qed
  qed
qed



lemma is_upload_s3_cp [simp]: "is_upload (Local cwd (s3_cp_cmd t b k))"
  by (simp add: s3_cp_cmd_def)



lemmas example_defs = example_world_def example_config_def example_builder_def

lemma take_s3_cp [simp]: "take 10 (s3_cp_cmd t b k) = ''aws s3 cp ''"
  by (simp add: s3_cp_cmd_def)

lemma not_upload_simps [simp]:
  "\<not> is_upload (Local cwd ''ls *.tar'')"
  "\<not> is_upload (Local cwd (create_fpga_image_cmd b k n d))"
  by (simp_all add: create_fpga_image_cmd_def)

text \<open>The events a stage can add, and the exceptions it can raise.\<close>

lemma poll_iter_events:
  "poll_iter w rd afi k (tr, r) = (tr', r') \<Longrightarrow>
     \<exists>es. tr' = tr @ es
        \<and> (\<forall>e\<in>set es. e = Local (Some rd) (describe_fpga_images_cmd afi) \<or> e = Sleep 10
                        \<or> (\<exists>s. e = Log INFO s))
        \<and> (\<forall>e. r' = Inl e \<longrightarrow> r = Inl e \<or> e = JSONError)"
proof (induction k arbitrary: tr r)
  case 0
  then show ?case by simp
next
  case (Suc k)
  show ?case
  proof (cases r)
    case (Inl e)
    with Suc.prems show ?thesis by simp
  next
    case (Inr cs)
    show ?thesis
    proof (cases "cs = ''pending''")
      case False
      with Suc.prems Inr show ?thesis by simp
    next
      case True
      obtain tr1 r1 where b: "poll_body w rd afi tr = (tr1, r1)" by (cases "poll_body w rd afi tr")
      with Suc.prems Inr True have "poll_iter w rd afi k (tr1, r1) = (tr', r')" by simp
      from Suc.IH[OF this] obtain es where
        es: "tr' = tr1 @ es"
            "\<forall>e\<in>set es. e = Local (Some rd) (describe_fpga_images_cmd afi) \<or> e = Sleep 10
                        \<or> (\<exists>s. e = Log INFO s)"
            "\<forall>e. r' = Inl e \<longrightarrow> r1 = Inl e \<or> e = JSONError" by blast
      from b obtain es1 where
        es1: "tr1 = tr @ es1"
            "\<forall>e\<in>set es1. e = Local (Some rd) (describe_fpga_images_cmd afi) \<or> e = Sleep 10
                        \<or> (\<exists>s. e = Log INFO s)"
            "\<forall>e. r1 = Inl e \<longrightarrow> e = JSONError"
        by (auto simp: poll_body_def Let_def split: option.splits)
      from es es1 Inr show ?thesis
        by (intro exI[of _ "es1 @ es"]) auto
    qed
  qed
qed

lemma poll_while_events:
  assumes "poll_while w rd afi cs tr = Some (tr', r')"
  shows "\<exists>es. tr' = tr @ es
        \<and> (\<forall>e\<in>set es. e = Local (Some rd) (describe_fpga_images_cmd afi) \<or> e = Sleep 10
                        \<or> (\<exists>s. e = Log INFO s))
        \<and> (\<forall>e. r' = Inl e \<longrightarrow> e = JSONError)"
proof -
  from while_imp_poll_iter[OF assms] obtain k where
    "poll_iter w rd afi k (tr, Inr cs) = (tr', r')" by blast
  from poll_iter_events[OF this] show ?thesis by simp
qed

lemma not_afi_simps [simp]:
  "\<not> afi_stage_event (Local cwd git_dirty_cmd)"
  "\<not> afi_stage_event (Local cwd git_hash_cmd)"
  by (simp_all add: git_dirty_cmd_def git_hash_cmd_def)

lemma upload_error:
  "aws_create_afi_upload w tr bc lrd d = (tr', Inl e) \<Longrightarrow> e = IndexError \<or> e = JSONError"
  by (auto simp: aws_create_afi_upload_def Let_def last_item_def split: option.splits if_splits)

lemma filter_empty_events:
  "\<forall>e\<in>set es. e = Local (Some rd) (describe_fpga_images_cmd afi) \<or> e = Sleep 10 \<or> (\<exists>s. e = Log INFO s)
   \<Longrightarrow> filter is_write_file es = [] \<and> filter is_notification es = [] \<and> filter is_release es = []
       \<and> filter is_upload es = []"
  by (auto simp: filter_empty_conv describe_fpga_images_cmd_def)


lemma upload_events:
  "aws_create_afi_upload w tr bc lrd d = (tr', r) \<Longrightarrow>
     \<exists>es. tr' = tr @ es \<and> filter is_write_file es = [] \<and> filter is_notification es = []
        \<and> filter is_release es = []"
  by (auto simp: aws_create_afi_upload_def Let_def split: sum.splits option.splits)

lemma hook_events:
  "filter is_write_file (run_post_build_hook w n bc lrd) = []"
  "filter is_notification (run_post_build_hook w n bc lrd) = []"
  "filter is_release (run_post_build_hook w n bc lrd) = []"
  by (simp_all add: run_post_build_hook_def Let_def split: option.splits)

lemma agfi_entry_contains: "\<exists>a b. agfi_entry afiname agfi = a @ agfi @ b"
  unfolding agfi_entry_def
  by (rule exI[of _ "afiname @ '':'' @ [CHR 0x0A] @ ''    agfi: ''"],
      rule exI[of _ "[CHR 0x0A] @ ''    deploy_triplet_override: null'' @ [CHR 0x0A]
                     @ ''    custom_runtime_config: null'' @ [CHR 0x0A]"]) simp

text \<open>The polls of the example world.\<close>

lemma example_poll_body:
  "poll_body (example_world rc l ready) rd afi tr =
     (tr @ [Local (Some rd) (describe_fpga_images_cmd afi),
            Log INFO (''Current state: '' @ (if length tr < ready then ''pending'' else ''available'')),
            Sleep 10],
      Inr (if length tr < ready then ''pending'' else ''available''))"
  by (simp add: poll_body_def example_world_def describe_fpga_images_cmd_def git_hash_cmd_def
        Let_def)

lemma example_world_polls:
  "length tr + 3 * m = ready \<Longrightarrow>
     \<exists>tr'. poll_while (example_world rc l ready) rd afi ''pending'' tr = Some (tr', Inr ''available'')
        \<and> length (filter (\<lambda>e. e = Local (Some rd) (describe_fpga_images_cmd afi)) tr') =
            length (filter (\<lambda>e. e = Local (Some rd) (describe_fpga_images_cmd afi)) tr) + Suc m"
proof (induction m arbitrary: tr)
  case 0
  then show ?case
    by (simp add: poll_while_pending example_poll_body poll_while_done)
next
  case (Suc m)
  let ?tr = "tr @ [Local (Some rd) (describe_fpga_images_cmd afi),
            Log INFO (''Current state: '' @ ''pending''), Sleep 10]"
  from Suc.prems have lt: "length tr < ready" by simp
  from Suc.prems have "length ?tr + 3 * m = ready" by simp
  from Suc.IH[OF this] obtain tr' where
    "poll_while (example_world rc l ready) rd afi ''pending'' ?tr = Some (tr', Inr ''available'')"
    "length (filter (\<lambda>e. e = Local (Some rd) (describe_fpga_images_cmd afi)) tr') =
            length (filter (\<lambda>e. e = Local (Some rd) (describe_fpga_images_cmd afi)) ?tr) + Suc m"
    by blast
  with lt show ?case
    by (subst poll_while_pending) (simp add: example_poll_body)
qed

text \<open>
  What follows a Vivado exit code 0 in \<open>build_bitstream\<close>, and a build farm host that is
  not local.
\<close>

lemma build_bitstream_after_vivado_ok:
  "run_vivado w self = (tr, Inr 0) \<Longrightarrow>
     build_bitstream w self False = Some (tr @ [Local None ''pwd''], Inl AttributeError)"
  by (simp add: build_bitstream_def aws_create_afi_def get_deploy_dir_def)

lemma build_bitstream_not_local:
  "\<not> is_local (build_config self) \<Longrightarrow>
     \<exists>tr. build_bitstream w self False = Some (tr, Inl AttributeError)
        \<and> filter is_release tr = [] \<and> filter is_notification tr = []"
  by (simp add: build_bitstream_def run_vivado_def get_deploy_dir_def Let_def)


lemma wrc_simps [simp]:
  "stdout (local (with_return_codes rcs w) n cwd cmd) = stdout (local w n cwd cmd)"
  "stderr (local (with_return_codes rcs w) n cwd cmd) = stderr (local w n cwd cmd)"
  "host_string (with_return_codes rcs w) = host_string w"
  "random_suffix (with_return_codes rcs w) = random_suffix w"
  "firesim_tags_to_description (with_return_codes rcs w) = firesim_tags_to_description w"
  "json_image_ids (with_return_codes rcs w) = json_image_ids w"
  "json_state_code (with_return_codes rcs w) = json_state_code w"
  "run (with_return_codes rcs w) = run w"
  "rsync_project (with_return_codes rcs w) = rsync_project w"
  by (simp_all add: with_return_codes_def)







text \<open>
  Lines 318 to 325 when \<open>aws_create_afi\<close> is called on a build config with a non-empty
  \<open>post_build_hook\<close> and the loop ends with \<open>available\<close>: after the copy to all regions,
  the success notification and the registry write, the hook is run once, with the local
  results directory as its argument; its captured output and error output are logged;
  the call returns \<open>True\<close>.  No exit status of a command on the manager is read in
  these lines.
\<close>

lemma post_build_hook_in_aws_create_afi:
  assumes tags: "aws_create_afi_tags w tr bc = (tr1, Inr (ldd, lrd, d))"
    and upload: "aws_create_afi_upload w tr1 bc lrd d = (tr2, Inr (agfi, afi))"
    and poll: "poll_while w lrd afi ''pending''
                 (tr2 @ [Log INFO ''Waiting for create-fpga-image completion.''])
               = Some (tr3, Inr ''available'')"
    and hook: "post_build_hook bc = Some hook" "hook \<noteq> []"
  shows "aws_create_afi w tr (Is_BuildConfig bc) =
           Some (tr3 @ [Copy_afi_to_all_regions afi,
                        Send_firesim_notification success_title (success_body (name bc) agfi),
                        Log INFO success_title,
                        Log INFO (success_body (name bc) agfi),
                        Local None (''mkdir -p '' @ ldd @ ''/built-hwdb-entries/''),
                        Write_file (ldd @ ''/built-hwdb-entries/'' @ ''/'' @ name bc)
                          (agfi_entry (name bc) agfi),
                        Local None (hook @ '' '' @ lrd),
                        Log DEBUG (''[localhost] ''
                                   @ stdout (local w (length tr3 + 6) None (hook @ '' '' @ lrd))),
                        Log DEBUG (''[localhost] ''
                                   @ stderr (local w (length tr3 + 6) None (hook @ '' '' @ lrd))),
                        Log INFO (''Build complete! AFI ready. See ''
                                  @ os_path_join (ldd @ ''/built-hwdb-entries/'') (name bc) @ ''.'')],
                 Inr (Some True))
       \<and> (\<forall>rcs. aws_create_afi_finish (with_return_codes rcs w) tr3 bc ldd lrd agfi afi
                   ''available''
                 = aws_create_afi_finish w tr3 bc ldd lrd agfi afi ''available'')"
proof -
  have n: "length tr3 + 6 = Suc (Suc (Suc (Suc (Suc (Suc (length tr3))))))" by simp
  from assms show ?thesis
    by (simp add: aws_create_afi_def aws_create_afi_finish_def run_post_build_hook_def Let_def n
          with_return_codes_def)
qed

text \<open>The same in the example world, where the hook exits with status 1.\<close>

lemma post_build_hook_example:
  "return_code (local (example_world 0 ''design.tar'' 20) 31 None ''hook.sh /d/results-build/b1'') = 1
   \<and> (\<exists>tr3. aws_create_afi (example_world 0 ''design.tar'' 20) [] (Is_BuildConfig example_config) =
           Some (tr3 @ [Copy_afi_to_all_regions ''afi-1'',
                        Send_firesim_notification success_title (success_body ''rocket'' ''agfi-123''),
                        Log INFO success_title,
                        Log INFO (success_body ''rocket'' ''agfi-123''),
                        Local None ''mkdir -p /d/built-hwdb-entries/'',
                        Write_file ''/d/built-hwdb-entries//rocket'' (agfi_entry ''rocket'' ''agfi-123''),
                        Local None ''hook.sh /d/results-build/b1'',
                        Log DEBUG ''[localhost] '',
                        Log DEBUG ''[localhost] '',
                        Log INFO ''Build complete! AFI ready. See /d/built-hwdb-entries/rocket.''],
                 Inr (Some True))
          \<and> length tr3 = 25)"
proof -
  let ?w = "example_world 0 ''design.tar'' 20"
  let ?tr1 = "[Local None ''pwd'', Local None git_dirty_cmd, Local None git_hash_cmd]"
  have a: "aws_create_afi_tags ?w [] example_config =
       (?tr1, Inr (''/d'', ''/d/results-build/b1'', ''D-T-P,D-T-P,c0ffee''))"
    by (simp add: tags_eq tag_deploytriplet_def tag_fsimcommit_def example_defs
          git_dirty_cmd_def git_hash_cmd_def)
  obtain tr2 where b: "aws_create_afi_upload ?w ?tr1 example_config ''/d/results-build/b1''
         ''D-T-P,D-T-P,c0ffee'' = (tr2, Inr (''agfi-123'', ''afi-1''))" and l2: "length tr2 = 15"
    by (simp add: aws_create_afi_upload_def Let_def last_item_def str_split_def isspace_def example_defs)
  obtain tr3 where c: "poll_while ?w ''/d/results-build/b1'' ''afi-1'' ''pending''
                 (tr2 @ [Log INFO ''Waiting for create-fpga-image completion.'']) = Some (tr3, Inr ''available'')"
     and l3: "length tr3 = 25"
    using l2
    by (simp add: poll_while_pending poll_while_done example_poll_body)
  have h: "post_build_hook example_config = Some ''hook.sh''" "''hook.sh'' \<noteq> []"
    by (simp_all add: example_defs)
  have rc: "return_code (local ?w 31 None ''hook.sh /d/results-build/b1'') = 1"
    by (simp add: example_defs)
  from post_build_hook_in_aws_create_afi[OF a b c h, THEN conjunct1]
  have "aws_create_afi ?w [] (Is_BuildConfig example_config) =
           Some (tr3 @ [Copy_afi_to_all_regions ''afi-1'',
                        Send_firesim_notification success_title (success_body ''rocket'' ''agfi-123''),
                        Log INFO success_title,
                        Log INFO (success_body ''rocket'' ''agfi-123''),
                        Local None ''mkdir -p /d/built-hwdb-entries/'',
                        Write_file ''/d/built-hwdb-entries//rocket'' (agfi_entry ''rocket'' ''agfi-123''),
                        Local None ''hook.sh /d/results-build/b1'',
                        Log DEBUG ''[localhost] '',
                        Log DEBUG ''[localhost] '',
                        Log INFO ''Build complete! AFI ready. See /d/built-hwdb-entries/rocket.''],
                 Inr (Some True))"
    by (simp add: l3 example_defs os_path_join_def git_dirty_cmd_def git_hash_cmd_def)
  with l3 rc show ?thesis by (intro conjI exI[of _ tr3])
qed

lemma run_vivado_no_release_no_notification:
  "filter is_release (fst (run_vivado w self)) = []"
  "filter is_notification (fst (run_vivado w self)) = []"
  by (simp_all add: run_vivado_def get_deploy_dir_def Let_def)

text \<open>
  Every run of \<open>build_bitstream\<close> without bypass that returns or raises: the build farm
  host release is not among its events; the only notification it can hold is the failure
  notification after a non-zero Vivado code; and it returns normally only through the
  failure handler.
\<close>

lemma non_bypass_run:
  assumes "build_bitstream w self False = Some (tr, r)"
  shows "Release_build_farm_host \<notin> set tr"
    and "filter is_notification tr =
           (case run_vivado w self of
              (tr0, Inl e) \<Rightarrow> []
            | (tr0, Inr vivado_result) \<Rightarrow>
                if vivado_result \<noteq> 0
                then [Send_firesim_notification failure_title (failure_body (build_config self))]
                else [])"
    and "r = Inr () \<longrightarrow> (\<exists>tr0 v. run_vivado w self = (tr0, Inr v) \<and> v \<noteq> 0)"
proof -
  obtain tr0 r0 where rv: "run_vivado w self = (tr0, r0)" by (cases "run_vivado w self")
  from run_vivado_no_release_no_notification[of w self] rv
  have f: "filter is_release tr0 = []" "filter is_notification tr0 = []" by simp_all
  from f(1) have nr: "Release_build_farm_host \<notin> set tr0"
    by (auto simp: filter_empty_conv)
  show "Release_build_farm_host \<notin> set tr"
    using assms rv nr
    by (cases r0)
       (auto simp: build_bitstream_def on_build_failure_def aws_create_afi_def get_deploy_dir_def
          Let_def split: if_splits)
  show "filter is_notification tr =
           (case run_vivado w self of
              (tr0, Inl e) \<Rightarrow> []
            | (tr0, Inr vivado_result) \<Rightarrow>
                if vivado_result \<noteq> 0
                then [Send_firesim_notification failure_title (failure_body (build_config self))]
                else [])"
    using assms rv f(2)
    by (cases r0)
       (auto simp: build_bitstream_def on_build_failure_def aws_create_afi_def get_deploy_dir_def
          Let_def split: if_splits)
  show "r = Inr () \<longrightarrow> (\<exists>tr0 v. run_vivado w self = (tr0, Inr v) \<and> v \<noteq> 0)"
    using assms rv
    by (cases r0)
       (auto simp: build_bitstream_def on_build_failure_def aws_create_afi_def get_deploy_dir_def
          Let_def split: if_splits)
qed

text \<open>
  \<open>aws_create_afi\<close> on a build config: it releases nothing, and it sends the success
  notification, once, exactly when it returns \<open>True\<close>.
\<close>

lemma aws_create_afi_notifications:
  assumes "aws_create_afi w tr (Is_BuildConfig bc) = Some (tr', r)"
  shows "\<exists>es. tr' = tr @ es \<and> filter is_release es = []
          \<and> (r = Inr (Some True) \<longrightarrow>
                (\<exists>agfi. filter is_notification es =
                   [Send_firesim_notification success_title (success_body (name bc) agfi)]))
          \<and> (r \<noteq> Inr (Some True) \<longrightarrow> filter is_notification es = [])"
proof -
  obtain tr1 r1 where t: "aws_create_afi_tags w tr bc = (tr1, r1)"
    by (cases "aws_create_afi_tags w tr bc")
  then obtain es1 where es1: "tr1 = tr @ es1" "filter is_release es1 = []"
      "filter is_notification es1 = []"
    by (auto simp: tags_eq split: if_splits)
  show ?thesis
  proof (cases r1)
    case (Inl e)
    with assms t es1 show ?thesis by (auto simp: aws_create_afi_def)
  next
    case (Inr x)
    obtain ldd lrd d where x: "x = (ldd, lrd, d)" by (cases x)
    obtain tr2 r2 where u: "aws_create_afi_upload w tr1 bc lrd d = (tr2, r2)"
      by (cases "aws_create_afi_upload w tr1 bc lrd d")
    from upload_events[OF u] obtain es2 where es2: "tr2 = tr1 @ es2" "filter is_release es2 = []"
      "filter is_notification es2 = []" by blast
    show ?thesis
    proof (cases r2)
      case (Inl e)
      with assms t Inr x u es1 es2 show ?thesis by (auto simp: aws_create_afi_def)
    next
      case ids: (Inr ids)
      obtain agfi afi where i: "ids = (agfi, afi)" by (cases ids)
      from assms t Inr x u ids i obtain tr3 r3 where
        p: "poll_while w lrd afi ''pending''
              (tr2 @ [Log INFO ''Waiting for create-fpga-image completion.'']) = Some (tr3, r3)"
        by (auto simp: aws_create_afi_def split: option.splits)
      from poll_while_events[OF p] obtain es3 where
        es3: "tr3 = tr2 @ [Log INFO ''Waiting for create-fpga-image completion.''] @ es3"
          "\<forall>e\<in>set es3. e = Local (Some lrd) (describe_fpga_images_cmd afi) \<or> e = Sleep 10
                        \<or> (\<exists>s. e = Log INFO s)" by auto
      from filter_empty_events[OF es3(2)]
      have f3: "filter is_release es3 = []" "filter is_notification es3 = []" by simp_all
      show ?thesis
      proof (cases r3)
        case (Inl e)
        with assms t Inr x u ids i p es1 es2 es3(1) f3 show ?thesis
          by (auto simp: aws_create_afi_def)
      next
        case cs: (Inr cs)
        with assms t Inr x u ids i p es1 es2 es3(1) f3 show ?thesis
          by (auto simp: aws_create_afi_def aws_create_afi_finish_def Let_def hook_events
                split: if_splits)
      qed
    qed
  qed
qed

subsection \<open>The bypass path\<close>

text \<open>
  Claim C7.  Called with \<open>bypass\<close> true, \<open>build_bitstream\<close> returns normally after a single
  event, the release of the build farm host: no command is run, nothing is copied or
  uploaded, no notification is sent.
\<close>

theorem build_bitstream_bypass:
  "build_bitstream w self True = Some ([Release_build_farm_host], Inr ())"
  by (simp add: build_bitstream_def)

subsection \<open>A failed Vivado run\<close>




subsection \<open>The release of the build host\<close>

text \<open>
  Claim C1 does not hold of the code.  After a Vivado exit code 2 the failure handler
  calls \<open>build_host_dispatcher.release_build_host()\<close>, so
  \<open>build_farm_host_dispatcher.release_build_farm_host()\<close>, the release of the bypass
  path and of line 218, is called zero times, and no release at all is called when the
  build config has no \<open>build_host_dispatcher\<close>.  After a Vivado exit code 0 the bound
  call \<open>self.aws_create_afi()\<close> raises \<open>AttributeError\<close> and nothing is released; the
  same holds when the build farm host is not local, where \<open>self.remote_setup()\<close>
  raises.
\<close>

theorem release_missed_on_failure_paths:
  "(\<forall>h. \<exists>tr r. build_bitstream (example_world 2 [] 0)
                   \<lparr>build_config = example_config\<lparr>has_build_host_dispatcher := h\<rparr>\<rparr> False
                 = Some (tr, r)
              \<and> filter (\<lambda>e. e = Release_build_farm_host) tr = []
              \<and> filter is_release tr = (if h then [Release_build_host] else []))
   \<and> (\<exists>tr. build_bitstream (example_world 0 ''design.tar'' 20) example_builder False
              = Some (tr, Inl AttributeError)
          \<and> filter is_release tr = [])
   \<and> (\<exists>tr. build_bitstream (example_world 0 ''design.tar'' 20)
                \<lparr>build_config = example_config\<lparr>is_local := False\<rparr>\<rparr> False
              = Some (tr, Inl AttributeError)
          \<and> filter is_release tr = [])"
  by (simp add: build_bitstream_def run_vivado_def get_deploy_dir_def on_build_failure_def
        aws_create_afi_def Let_def example_defs)

subsection \<open>Notifications\<close>

text \<open>
  Claim C3 does not hold of the code.  In a non-bypass run whose Vivado script exits
  with code 0 the bound call \<open>self.aws_create_afi()\<close> raises \<open>AttributeError\<close> at line 230:
  no notification is sent, neither of success nor of failure.
\<close>

theorem no_notification_after_vivado_success:
  "\<exists>tr. build_bitstream (example_world 0 ''design.tar'' 20) example_builder False
           = Some (tr, Inl AttributeError)
       \<and> return_code (run (example_world 0 ''design.tar'' 20) 7
            (build_bitstream_cmd ''/d/../platforms/f1/aws-fpga/hdk/cl/developer_designs/cl_D-T-P'')) = 0
       \<and> Run (build_bitstream_cmd ''/d/../platforms/f1/aws-fpga/hdk/cl/developer_designs/cl_D-T-P'')
            \<in> set tr
       \<and> filter is_notification tr = []"
  by (simp add: build_bitstream_def run_vivado_def get_deploy_dir_def on_build_failure_def
        aws_create_afi_def Let_def example_defs build_bitstream_cmd_def)

subsection \<open>The tag assertions\<close>

text \<open>
  Claim C9.  \<open>aws_create_afi\<close> asserts that the build-triplet tag, the deploy-triplet tag
  and the source-commit tag are at most 255 characters long.  If one of them is longer,
  the call on a build config raises \<open>AssertionError\<close>, and the events it has added by then
  contain no upload, no image request and no other event of the stages after Vivado.
  Conversely the call raises \<open>AssertionError\<close> only if one of the three is longer.
\<close>

theorem tag_length_assertions:
  "(255 < length (chisel_triplet bc) \<or> 255 < length (tag_deploytriplet bc)
      \<or> 255 < length (tag_fsimcommit w (Suc (length tr)))
    \<longrightarrow> (\<exists>es. aws_create_afi w tr (Is_BuildConfig bc) = Some (tr @ es, Inl AssertionError)
              \<and> filter afi_stage_event es = []))
   \<and> ((\<exists>tr'. aws_create_afi w tr (Is_BuildConfig bc) = Some (tr', Inl AssertionError))
    \<longrightarrow> 255 < length (chisel_triplet bc) \<or> 255 < length (tag_deploytriplet bc)
          \<or> 255 < length (tag_fsimcommit w (Suc (length tr))))"
proof (intro conjI impI)
  assume "255 < length (chisel_triplet bc) \<or> 255 < length (tag_deploytriplet bc)
      \<or> 255 < length (tag_fsimcommit w (Suc (length tr)))"
  then show "\<exists>es. aws_create_afi w tr (Is_BuildConfig bc) = Some (tr @ es, Inl AssertionError)
              \<and> filter afi_stage_event es = []"
    by (auto simp: aws_create_afi_def tags_eq git_dirty_cmd_def git_hash_cmd_def)
next
  assume "\<exists>tr'. aws_create_afi w tr (Is_BuildConfig bc) = Some (tr', Inl AssertionError)"
  then obtain tr' where r: "aws_create_afi w tr (Is_BuildConfig bc) = Some (tr', Inl AssertionError)" ..
  show "255 < length (chisel_triplet bc) \<or> 255 < length (tag_deploytriplet bc)
          \<or> 255 < length (tag_fsimcommit w (Suc (length tr)))"
  proof (rule ccontr)
    assume n: "\<not> ?thesis"
    obtain tr2 r2 where u: "aws_create_afi_upload w
        (tr @ [Local None ''pwd'', Local None git_dirty_cmd, Local None git_hash_cmd]) bc
        (stdout (local w (length tr) None ''pwd'') @ ''/results-build/'' @ build_dir_name bc)
        (firesim_tags_to_description w (chisel_triplet bc) (tag_deploytriplet bc)
                  (tag_fsimcommit w (Suc (length tr)))) = (tr2, r2)" by force
    show False
    proof (cases r2)
      case (Inl e)
      with upload_error[of w _ bc _ _ tr2 e] u have "e = IndexError \<or> e = JSONError" by simp
      with r n u Inl show False by (auto simp: aws_create_afi_def tags_eq)
    next
      case (Inr ids)
      obtain agfi afi where ids: "ids = (agfi, afi)" by (cases ids)
      from r n u Inr ids obtain tr3 r3 where
        p: "poll_while w (stdout (local w (length tr) None ''pwd'') @ ''/results-build/'' @ build_dir_name bc)
              afi ''pending'' (tr2 @ [Log INFO ''Waiting for create-fpga-image completion.'']) = Some (tr3, r3)"
        by (auto simp: aws_create_afi_def tags_eq split: option.splits)
      from poll_while_events[OF p] have e3: "\<forall>e. r3 = Inl e \<longrightarrow> e = JSONError" by blast
      from r n u Inr ids p e3 show False
        by (cases r3) (auto simp: aws_create_afi_def tags_eq aws_create_afi_finish_def Let_def split: if_splits)
    qed
  qed
qed

text \<open>Claim C9 at a build triplet of 256 characters.\<close>

theorem tag_length_assertions_witness:
  "255 < length (chisel_triplet (example_config\<lparr>chisel_triplet := replicate 256 CHR ''x''\<rparr>))
   \<and> (\<exists>es. aws_create_afi (example_world 0 ''design.tar'' 20) []
              (Is_BuildConfig (example_config\<lparr>chisel_triplet := replicate 256 CHR ''x''\<rparr>))
            = Some ([] @ es, Inl AssertionError) \<and> filter afi_stage_event es = [])"
  using tag_length_assertions[of "example_config\<lparr>chisel_triplet := replicate 256 CHR ''x''\<rparr>"
          "example_world 0 ''design.tar'' 20" "[]"]
  by (simp add: example_defs)

subsection \<open>The deploy-triplet tag\<close>

text \<open>
  Claim C10.  When the tag stage passes its assertions, the description handed to the
  image request is built from the build triplet, the deploy-triplet tag and the commit
  tag, where the deploy-triplet tag is the build triplet if \<open>deploytriplet\<close> is falsy and
  the configured \<open>deploytriplet\<close> otherwise; and that description is the one in the
  \<open>create-fpga-image\<close> command.
\<close>

theorem deploy_triplet_tag:
  assumes "aws_create_afi_tags w tr bc = (tr1, Inr (ldd, lrd, description))"
  shows "(\<not> truthy (deploytriplet bc) \<longrightarrow>
            description = firesim_tags_to_description w (chisel_triplet bc) (chisel_triplet bc)
                            (tag_fsimcommit w (Suc (length tr))))
       \<and> (\<forall>d. deploytriplet bc = Some d \<and> truthy (Some d) \<longrightarrow>
            description = firesim_tags_to_description w (chisel_triplet bc) d
                            (tag_fsimcommit w (Suc (length tr))))
       \<and> (\<forall>tr2 ids. aws_create_afi_upload w tr1 bc lrd description = (tr2, Inr ids) \<longrightarrow>
            (\<exists>k. Local (Some (to_aws_dir lrd (chisel_triplet bc)))
                    (create_fpga_image_cmd (s3_bucketname bc) k (name bc) description) \<in> set tr2))"
proof -
  from assms have d: "description = firesim_tags_to_description w (chisel_triplet bc)
      (tag_deploytriplet bc) (tag_fsimcommit w (Suc (length tr)))"
    by (simp add: tags_eq split: if_splits)
  have 1: "\<not> truthy (deploytriplet bc) \<Longrightarrow> tag_deploytriplet bc = chisel_triplet bc"
    by (cases "deploytriplet bc") (simp_all add: tag_deploytriplet_def)
  have 2: "\<And>d. deploytriplet bc = Some d \<and> truthy (Some d) \<Longrightarrow> tag_deploytriplet bc = d"
    by (simp add: tag_deploytriplet_def)
  have 3: "\<exists>k. Local (Some (to_aws_dir lrd (chisel_triplet bc)))
                    (create_fpga_image_cmd (s3_bucketname bc) k (name bc) description) \<in> set tr2"
    if "aws_create_afi_upload w tr1 bc lrd description = (tr2, Inr ids)" for tr2 ids
    using that
    by (auto simp: aws_create_afi_upload_def Let_def split: sum.splits option.splits)
  show ?thesis
  proof (intro conjI allI impI)
    assume "\<not> truthy (deploytriplet bc)"
    from 1[OF this] d show "description = firesim_tags_to_description w (chisel_triplet bc)
        (chisel_triplet bc) (tag_fsimcommit w (Suc (length tr)))" by simp
  next
    fix d' assume "deploytriplet bc = Some d' \<and> truthy (Some d')"
    from 2[OF this] d show "description = firesim_tags_to_description w (chisel_triplet bc) d'
        (tag_fsimcommit w (Suc (length tr)))" by simp
  next
    fix tr2 ids assume "aws_create_afi_upload w tr1 bc lrd description = (tr2, Inr ids)"
    then show "\<exists>k. Local (Some (to_aws_dir lrd (chisel_triplet bc)))
                    (create_fpga_image_cmd (s3_bucketname bc) k (name bc) description) \<in> set tr2"
      by (rule 3)
  qed
qed

text \<open>Both cases of claim C10 on the example config, without and with an override.\<close>

theorem deploy_triplet_tag_witness:
  "\<not> truthy (deploytriplet example_config)
   \<and> aws_create_afi_tags (example_world 0 ''design.tar'' 20) [] example_config =
       ([Local None ''pwd'', Local None git_dirty_cmd, Local None git_hash_cmd],
        Inr (''/d'', ''/d/results-build/b1'', ''D-T-P,D-T-P,c0ffee''))
   \<and> aws_create_afi_tags (example_world 0 ''design.tar'' 20) []
         (example_config\<lparr>deploytriplet := Some ''X-Y-Z''\<rparr>) =
       ([Local None ''pwd'', Local None git_dirty_cmd, Local None git_hash_cmd],
        Inr (''/d'', ''/d/results-build/b1'', ''D-T-P,X-Y-Z,c0ffee''))
   \<and> (\<exists>k. Local (Some (to_aws_dir ''/d/results-build/b1'' ''D-T-P''))
             (create_fpga_image_cmd ''bkt'' k ''rocket'' ''D-T-P,D-T-P,c0ffee'')
           \<in> set (fst (aws_create_afi_upload (example_world 0 ''design.tar'' 20)
                          [Local None ''pwd'', Local None git_dirty_cmd, Local None git_hash_cmd]
                          example_config ''/d/results-build/b1'' ''D-T-P,D-T-P,c0ffee'')))"
proof -
  let ?w = "example_world 0 ''design.tar'' 20"
  let ?tr1 = "[Local None ''pwd'', Local None git_dirty_cmd, Local None git_hash_cmd]"
  have a: "aws_create_afi_tags ?w [] example_config =
       (?tr1, Inr (''/d'', ''/d/results-build/b1'', ''D-T-P,D-T-P,c0ffee''))"
    by (simp add: tags_eq tag_deploytriplet_def tag_fsimcommit_def example_defs
          git_dirty_cmd_def git_hash_cmd_def)
  have b: "aws_create_afi_tags ?w [] (example_config\<lparr>deploytriplet := Some ''X-Y-Z''\<rparr>) =
       (?tr1, Inr (''/d'', ''/d/results-build/b1'', ''D-T-P,X-Y-Z,c0ffee''))"
    by (simp add: tags_eq tag_deploytriplet_def tag_fsimcommit_def example_defs
          git_dirty_cmd_def git_hash_cmd_def)
  have c: "\<not> truthy (deploytriplet example_config)" by (simp add: example_defs)
  obtain tr2 r where u: "aws_create_afi_upload ?w ?tr1 example_config ''/d/results-build/b1''
         ''D-T-P,D-T-P,c0ffee'' = (tr2, r)" by force
  have r: "\<exists>ids. r = Inr ids"
    using u by (auto simp: aws_create_afi_upload_def Let_def last_item_def str_split_def isspace_def example_defs split: if_splits)
  from deploy_triplet_tag[OF a] u r a b c show ?thesis
    by (auto simp: example_defs)
qed

subsection \<open>Artifact discovery\<close>




subsection \<open>The polling loop\<close>

text \<open>
  Claim C6.  The loop returns \<open>res\<close> exactly when some number of turns reaches \<open>res\<close> with
  a result other than the state \<open>pending\<close> (a decoded state, or the exception of a poll
  that cannot be decoded); it never returns exactly when every turn reads \<open>pending\<close>.
  Each turn issues one \<open>describe-fpga-images\<close> query and, once the state is decoded,
  logs it and sleeps 10.  No number of attempts is an upper bound: for every \<open>n\<close> there
  is a world in which the loop issues \<open>n + 1\<close> queries before it returns.
\<close>

theorem polling_loop:
  "(poll_while w rd afi ''pending'' tr = Some res \<longleftrightarrow>
      (\<exists>k. poll_iter w rd afi k (tr, Inr ''pending'') = res \<and> snd res \<noteq> Inr ''pending''))
   \<and> (poll_while w rd afi ''pending'' tr = None \<longleftrightarrow>
      (\<forall>k. snd (poll_iter w rd afi k (tr, Inr ''pending'')) = Inr ''pending''))
   \<and> (case json_state_code w (stdout (local w (length tr) (Some rd) (describe_fpga_images_cmd afi))) of
        None \<Rightarrow> poll_body w rd afi tr =
                 (tr @ [Local (Some rd) (describe_fpga_images_cmd afi)], Inl JSONError)
      | Some cs \<Rightarrow> poll_body w rd afi tr =
                 (tr @ [Local (Some rd) (describe_fpga_images_cmd afi),
                        Log INFO (''Current state: '' @ cs), Sleep 10], Inr cs))
   \<and> (\<forall>n. \<exists>w' tr'. poll_while w' rd afi ''pending'' [] = Some (tr', Inr ''available'')
          \<and> length (filter (\<lambda>e. e = Local (Some rd) (describe_fpga_images_cmd afi)) tr') = Suc n)"
proof (intro conjI allI)
  show 1: "poll_while w rd afi ''pending'' tr = Some res \<longleftrightarrow>
      (\<exists>k. poll_iter w rd afi k (tr, Inr ''pending'') = res \<and> snd res \<noteq> Inr ''pending'')" for res
  proof
    assume "poll_while w rd afi ''pending'' tr = Some res"
    then show "\<exists>k. poll_iter w rd afi k (tr, Inr ''pending'') = res \<and> snd res \<noteq> Inr ''pending''"
      by (rule while_imp_poll_iter)
  next
    assume "\<exists>k. poll_iter w rd afi k (tr, Inr ''pending'') = res \<and> snd res \<noteq> Inr ''pending''"
    then obtain k where "poll_iter w rd afi k (tr, Inr ''pending'') = res"
      and "snd res \<noteq> Inr ''pending''" by blast
    then show "poll_while w rd afi ''pending'' tr = Some res" by (rule poll_iter_imp_while)
  qed
  show "poll_while w rd afi ''pending'' tr = None \<longleftrightarrow>
      (\<forall>k. snd (poll_iter w rd afi k (tr, Inr ''pending'')) = Inr ''pending'')"
  proof
    assume n: "poll_while w rd afi ''pending'' tr = None"
    show "\<forall>k. snd (poll_iter w rd afi k (tr, Inr ''pending'')) = Inr ''pending''"
    proof (rule ccontr)
      assume "\<not> ?thesis"
      then obtain k where "snd (poll_iter w rd afi k (tr, Inr ''pending'')) \<noteq> Inr ''pending''" by blast
      from poll_iter_imp_while[OF refl this] n show False by simp
    qed
  next
    assume a: "\<forall>k. snd (poll_iter w rd afi k (tr, Inr ''pending'')) = Inr ''pending''"
    show "poll_while w rd afi ''pending'' tr = None"
    proof (cases "poll_while w rd afi ''pending'' tr")
      case None
      then show ?thesis .
    next
      case (Some res)
      from while_imp_poll_iter[OF this] a show ?thesis by blast
    qed
  qed
  show "case json_state_code w (stdout (local w (length tr) (Some rd) (describe_fpga_images_cmd afi))) of
        None \<Rightarrow> poll_body w rd afi tr =
                 (tr @ [Local (Some rd) (describe_fpga_images_cmd afi)], Inl JSONError)
      | Some cs \<Rightarrow> poll_body w rd afi tr =
                 (tr @ [Local (Some rd) (describe_fpga_images_cmd afi),
                        Log INFO (''Current state: '' @ cs), Sleep 10], Inr cs)"
    by (simp add: poll_body_def Let_def split: option.splits)
  fix n
  have "length ([]::event list) + 3 * n = 3 * n" by simp
  from example_world_polls[OF this, of 0 "[]" rd afi] obtain tr' where
    "poll_while (example_world 0 [] (3 * n)) rd afi ''pending'' [] = Some (tr', Inr ''available'')"
    "length (filter (\<lambda>e. e = Local (Some rd) (describe_fpga_images_cmd afi)) tr') = Suc n"
    by auto
  then show "\<exists>w' tr'. poll_while w' rd afi ''pending'' [] = Some (tr', Inr ''available'')
          \<and> length (filter (\<lambda>e. e = Local (Some rd) (describe_fpga_images_cmd afi)) tr') = Suc n"
    by blast
qed

text \<open>Claim C6 on two polls answering \<open>pending\<close> and a third answering \<open>available\<close>.\<close>

theorem polling_loop_witness:
  "poll_while (example_world 0 [] 6) ''/r'' ''afi-1'' ''pending'' [] =
     Some ([Local (Some ''/r'') (describe_fpga_images_cmd ''afi-1''),
            Log INFO ''Current state: pending'', Sleep 10,
            Local (Some ''/r'') (describe_fpga_images_cmd ''afi-1''),
            Log INFO ''Current state: pending'', Sleep 10,
            Local (Some ''/r'') (describe_fpga_images_cmd ''afi-1''),
            Log INFO ''Current state: available'', Sleep 10], Inr ''available'')
   \<and> (\<exists>k. poll_iter (example_world 0 [] 6) ''/r'' ''afi-1'' k ([], Inr ''pending'') =
          ([Local (Some ''/r'') (describe_fpga_images_cmd ''afi-1''),
            Log INFO ''Current state: pending'', Sleep 10,
            Local (Some ''/r'') (describe_fpga_images_cmd ''afi-1''),
            Log INFO ''Current state: pending'', Sleep 10,
            Local (Some ''/r'') (describe_fpga_images_cmd ''afi-1''),
            Log INFO ''Current state: available'', Sleep 10], Inr ''available''))"
proof -
  have e: "poll_while (example_world 0 [] 6) ''/r'' ''afi-1'' ''pending'' [] =
     Some ([Local (Some ''/r'') (describe_fpga_images_cmd ''afi-1''),
            Log INFO ''Current state: pending'', Sleep 10,
            Local (Some ''/r'') (describe_fpga_images_cmd ''afi-1''),
            Log INFO ''Current state: pending'', Sleep 10,
            Local (Some ''/r'') (describe_fpga_images_cmd ''afi-1''),
            Log INFO ''Current state: available'', Sleep 10], Inr ''available'')"
    by (simp add: poll_while_pending poll_while_done example_poll_body)
  note pl = polling_loop[THEN conjunct1, THEN iffD1, OF e]
  from pl have "\<exists>k. poll_iter (example_world 0 [] 6) ''/r'' ''afi-1'' k ([], Inr ''pending'') =
          ([Local (Some ''/r'') (describe_fpga_images_cmd ''afi-1''),
            Log INFO ''Current state: pending'', Sleep 10,
            Local (Some ''/r'') (describe_fpga_images_cmd ''afi-1''),
            Log INFO ''Current state: pending'', Sleep 10,
            Local (Some ''/r'') (describe_fpga_images_cmd ''afi-1''),
            Log INFO ''Current state: available'', Sleep 10], Inr ''available'')"
    by (elim exE conjE, intro exI)
  with e show ?thesis by (rule conjI)
qed

subsection \<open>The end of the conversion\<close>

text \<open>
  Claim C5.  Let the tags pass, the upload and the image request succeed, and the loop
  end with the state \<open>cs\<close>.  If \<open>cs\<close> is \<open>available\<close>, \<open>aws_create_afi\<close> copies the image to
  all regions, writes exactly one file in the whole call, named after the build
  (\<open>name\<close>) under \<open>built-hwdb-entries\<close> and holding the registry entry, and returns
  \<open>True\<close>.  For any other \<open>cs\<close> it returns \<open>None\<close>, writes no file, and after the submission
  has only queried the status.  The registry entry contains the agfi.
\<close>

theorem available_is_the_only_success:
  assumes tags: "aws_create_afi_tags w tr bc = (tr1, Inr (ldd, lrd, d))"
    and upload: "aws_create_afi_upload w tr1 bc lrd d = (tr2, Inr (agfi, afi))"
    and poll: "poll_while w lrd afi ''pending''
                 (tr2 @ [Log INFO ''Waiting for create-fpga-image completion.'']) = Some (tr3, Inr cs)"
  shows "(cs = ''available'' \<longrightarrow>
            (\<exists>es. aws_create_afi w tr (Is_BuildConfig bc) = Some (tr3 @ es, Inr (Some True))
               \<and> Copy_afi_to_all_regions afi \<in> set es
               \<and> filter is_write_file (drop (length tr) (tr3 @ es)) =
                   [Write_file (ldd @ ''/built-hwdb-entries/'' @ ''/'' @ name bc)
                      (agfi_entry (name bc) agfi)]))
       \<and> (cs \<noteq> ''available'' \<longrightarrow>
            aws_create_afi w tr (Is_BuildConfig bc) = Some (tr3, Inr None)
            \<and> filter is_write_file (drop (length tr) tr3) = []
            \<and> filter afi_stage_event (drop (length tr2) tr3) =
                filter (\<lambda>e. e = Local (Some lrd) (describe_fpga_images_cmd afi)) (drop (length tr2) tr3))
       \<and> (\<exists>a b. agfi_entry (name bc) agfi = a @ agfi @ b)"
proof -
  from tags have tr1: "tr1 = tr @ [Local None ''pwd'', Local None git_dirty_cmd, Local None git_hash_cmd]"
    by (simp add: tags_eq split: if_splits)
  from upload_events[OF upload] obtain es2 where
    es2: "tr2 = tr1 @ es2" "filter is_write_file es2 = []" by blast
  from poll_while_events[OF poll] obtain es3 where
    es3: "tr3 = tr2 @ [Log INFO ''Waiting for create-fpga-image completion.''] @ es3"
       "\<forall>e\<in>set es3. e = Local (Some lrd) (describe_fpga_images_cmd afi) \<or> e = Sleep 10
                        \<or> (\<exists>s. e = Log INFO s)" by auto
  from filter_empty_events[OF es3(2)] have w3: "filter is_write_file es3 = []" by simp
  have nw: "filter is_write_file (drop (length tr) tr3) = []"
    using tr1 es2 es3(1) w3 by simp
  have q: "filter afi_stage_event es3 = filter (\<lambda>e. e = Local (Some lrd) (describe_fpga_images_cmd afi)) es3"
    using es3(2) by (intro filter_cong) (auto simp: describe_fpga_images_cmd_def)
  have dr: "drop (length tr) (tr3 @ es) = drop (length tr) tr3 @ es" for es
    using tr1 es2 es3(1) by simp
  have whole: "aws_create_afi w tr (Is_BuildConfig bc) =
                 Some (aws_create_afi_finish w tr3 bc ldd lrd agfi afi cs)"
    using tags upload poll by (simp add: aws_create_afi_def)
  show ?thesis
  proof (intro conjI impI)
    assume "cs = ''available''"
    with whole nw dr show "\<exists>es. aws_create_afi w tr (Is_BuildConfig bc) = Some (tr3 @ es, Inr (Some True))
               \<and> Copy_afi_to_all_regions afi \<in> set es
               \<and> filter is_write_file (drop (length tr) (tr3 @ es)) =
                   [Write_file (ldd @ ''/built-hwdb-entries/'' @ ''/'' @ name bc)
                      (agfi_entry (name bc) agfi)]"
      by (simp add: aws_create_afi_finish_def Let_def hook_events)
  next
    assume "cs \<noteq> ''available''"
    with whole show "aws_create_afi w tr (Is_BuildConfig bc) = Some (tr3, Inr None)"
      by (simp add: aws_create_afi_finish_def)
  next
    show "filter is_write_file (drop (length tr) tr3) = []" by (rule nw)
  next
    show "filter afi_stage_event (drop (length tr2) tr3) =
                filter (\<lambda>e. e = Local (Some lrd) (describe_fpga_images_cmd afi)) (drop (length tr2) tr3)"
      using es3(1) q by simp
  next
    show "\<exists>a b. agfi_entry (name bc) agfi = a @ agfi @ b" by (rule agfi_entry_contains)
  qed
qed

text \<open>
  Claim C5 on the scenario of the specification: artifact \<open>design.tar\<close>, two polls
  answering \<open>pending\<close>, then \<open>available\<close> with agfi \<open>agfi-123\<close>; and on the same
  scenario ending in \<open>failed\<close>.
\<close>

theorem available_is_the_only_success_witness:
  "(\<exists>tr3 es. aws_create_afi (example_world 0 ''design.tar'' 20) [] (Is_BuildConfig example_config)
               = Some (tr3 @ es, Inr (Some True))
     \<and> Copy_afi_to_all_regions ''afi-1'' \<in> set es
     \<and> filter is_write_file (tr3 @ es) =
         [Write_file ''/d/built-hwdb-entries//rocket'' (agfi_entry ''rocket'' ''agfi-123'')]
     \<and> length (filter (\<lambda>e. e = Log INFO ''Current state: pending'') tr3) = 2
     \<and> length (filter (\<lambda>e. e = Log INFO ''Current state: available'') tr3) = 1)
   \<and> (\<exists>tr3. aws_create_afi failing_world [] (Is_BuildConfig example_config) = Some (tr3, Inr None)
     \<and> filter is_write_file tr3 = []
     \<and> length (filter (\<lambda>e. e = Log INFO ''Current state: pending'') tr3) = 2
     \<and> length (filter (\<lambda>e. e = Log INFO ''Current state: failed'') tr3) = 1)"
proof -
  have available:
    "\<exists>tr3 es. aws_create_afi (example_world 0 ''design.tar'' 20) [] (Is_BuildConfig example_config)
               = Some (tr3 @ es, Inr (Some True))
     \<and> Copy_afi_to_all_regions ''afi-1'' \<in> set es
     \<and> filter is_write_file (tr3 @ es) =
         [Write_file ''/d/built-hwdb-entries//rocket'' (agfi_entry ''rocket'' ''agfi-123'')]
     \<and> length (filter (\<lambda>e. e = Log INFO ''Current state: pending'') tr3) = 2
     \<and> length (filter (\<lambda>e. e = Log INFO ''Current state: available'') tr3) = 1"
  proof -
    let ?w = "example_world 0 ''design.tar'' 20"
    let ?tr1 = "[Local None ''pwd'', Local None git_dirty_cmd, Local None git_hash_cmd]"
    have a: "aws_create_afi_tags ?w [] example_config =
         (?tr1, Inr (''/d'', ''/d/results-build/b1'', ''D-T-P,D-T-P,c0ffee''))"
      by (simp add: tags_eq tag_deploytriplet_def tag_fsimcommit_def example_defs
            git_dirty_cmd_def git_hash_cmd_def)
    obtain tr2 where b: "aws_create_afi_upload ?w ?tr1 example_config ''/d/results-build/b1''
           ''D-T-P,D-T-P,c0ffee'' = (tr2, Inr (''agfi-123'', ''afi-1''))" and l2: "length tr2 = 15"
      by (simp add: aws_create_afi_upload_def Let_def last_item_def str_split_def isspace_def example_defs)
    obtain tr3 where c: "poll_while ?w ''/d/results-build/b1'' ''afi-1'' ''pending''
                   (tr2 @ [Log INFO ''Waiting for create-fpga-image completion.'']) = Some (tr3, Inr ''available'')"
       and p: "length (filter (\<lambda>e. e = Log INFO ''Current state: pending'') tr3) = 2"
              "length (filter (\<lambda>e. e = Log INFO ''Current state: available'') tr3) = 1"
      using b l2
      by (simp add: aws_create_afi_upload_def Let_def last_item_def str_split_def isspace_def
            poll_while_pending poll_while_done poll_body_def describe_fpga_images_cmd_def
            example_defs git_dirty_cmd_def git_hash_cmd_def, auto)
    from available_is_the_only_success[OF a b c] p show ?thesis
      by (auto simp: example_defs)
  qed
  have failed:
    "\<exists>tr3. aws_create_afi failing_world [] (Is_BuildConfig example_config) = Some (tr3, Inr None)
     \<and> filter is_write_file tr3 = []
     \<and> length (filter (\<lambda>e. e = Log INFO ''Current state: pending'') tr3) = 2
     \<and> length (filter (\<lambda>e. e = Log INFO ''Current state: failed'') tr3) = 1"
  proof -
    let ?w = "failing_world"
    let ?tr1 = "[Local None ''pwd'', Local None git_dirty_cmd, Local None git_hash_cmd]"
    have a: "aws_create_afi_tags ?w [] example_config =
         (?tr1, Inr (''/d'', ''/d/results-build/b1'', ''D-T-P,D-T-P,c0ffee''))"
      by (simp add: tags_eq tag_deploytriplet_def tag_fsimcommit_def example_defs failing_world_def
            git_dirty_cmd_def git_hash_cmd_def)
    obtain tr2 where b: "aws_create_afi_upload ?w ?tr1 example_config ''/d/results-build/b1''
           ''D-T-P,D-T-P,c0ffee'' = (tr2, Inr (''agfi-123'', ''afi-1''))" and l2: "length tr2 = 15"
      by (simp add: aws_create_afi_upload_def Let_def last_item_def str_split_def isspace_def
            example_defs failing_world_def)
    obtain tr3 where c: "poll_while ?w ''/d/results-build/b1'' ''afi-1'' ''pending''
                   (tr2 @ [Log INFO ''Waiting for create-fpga-image completion.'']) = Some (tr3, Inr ''failed'')"
       and p: "length (filter (\<lambda>e. e = Log INFO ''Current state: pending'') tr3) = 2"
              "length (filter (\<lambda>e. e = Log INFO ''Current state: failed'') tr3) = 1"
      using b l2
      by (simp add: aws_create_afi_upload_def Let_def last_item_def str_split_def isspace_def
            poll_while_pending poll_while_done poll_body_def describe_fpga_images_cmd_def
            example_defs failing_world_def git_dirty_cmd_def git_hash_cmd_def, auto)
    have ne: "''failed'' \<noteq> ''available''" by simp
    from available_is_the_only_success[OF a b c, THEN conjunct2, THEN conjunct1, rule_format, OF ne] p
    show ?thesis
      by (intro exI[of _ tr3]) simp
  qed
  from available failed show ?thesis by (rule conjI)
qed

subsection \<open>The post-build hook\<close>

text \<open>
  Claim C8 does not hold of the code.  The hook is run by \<open>aws_create_afi\<close>, and the
  only call of \<open>aws_create_afi\<close> in a run is the bound call of line 214, which raises
  \<open>AttributeError\<close> at line 230.  With a hook configured, a Vivado exit code 0 and an
  image that would become available, the run ends there: the hook is not run, no
  notification is sent, no registry entry is written, and the host is not released.
\<close>

theorem hook_never_reached_from_build_bitstream:
  "truthy (post_build_hook (build_config example_builder))
   \<and> build_bitstream (example_world 0 ''design.tar'' 20) example_builder False =
       Some ([Log INFO ''Building AWS F1 AGFI from Verilog'',
              Local None ''pwd'',
              Run ''mkdir -p /d/results-build/b1'',
              Run (''cp /d/../platforms/f1/aws-fpga/hdk/cl/developer_designs/cl_D-T-P''
                   @ ''/design/FireSim-generated.sv /d/results-build/b1/FireSim-generated.sv''),
              Rsync_project ''/d/../platforms/f1/build-bitstream.sh''
                ''/d/../platforms/f1/aws-fpga/hdk/cl/developer_designs/cl_D-T-P/'' True,
              Log DEBUG [], Log DEBUG [],
              Run (build_bitstream_cmd
                     ''/d/../platforms/f1/aws-fpga/hdk/cl/developer_designs/cl_D-T-P''),
              Rsync_project ''/d/results-build/b1/''
                ''/d/../platforms/f1/aws-fpga/hdk/cl/developer_designs/cl_D-T-P'' False,
              Log DEBUG [], Log DEBUG [],
              Local None ''pwd''],
             Inl AttributeError)"
  by (simp add: build_bitstream_def run_vivado_def get_deploy_dir_def aws_create_afi_def
        Let_def example_defs)

end
